theory Spec2Isabelle
  imports Complex_Main "HOL-Library.Word"
begin

section \<open>Strings of the platform\<close>

text \<open>
  A string of the source language is a finite sequence of 16-bit code units (UTF-16).
  Literals of the source that are plain ASCII are written with \<open>js\<close>; the few letters
  beyond ASCII that occur in the source are given by their code unit.
\<close>

type_synonym codeUnit = "16 word"
type_synonym jsstring = "codeUnit list"

definition js :: "string \<Rightarrow> jsstring" where
  "js s = map (\<lambda>c. of_nat (of_char c)) s"

datatype error = URIError | TypeError

subsection \<open>encodeURIComponent\<close>

text \<open>
  \<open>encodeURIComponent\<close> is the platform function called by \<open>ContactForm.handleSubmit\<close>.
  It walks the code units: an unreserved one is copied, any other code point is written
  as its UTF-8 octets, each as \<open>%XX\<close> in upper-case hexadecimal; a surrogate without
  its partner makes the call throw \<open>URIError\<close>.
\<close>

definition isLeadingSurrogate :: "codeUnit \<Rightarrow> bool" where
  "isLeadingSurrogate c = (0xD800 \<le> c \<and> c \<le> 0xDBFF)"

definition isTrailingSurrogate :: "codeUnit \<Rightarrow> bool" where
  "isTrailingSurrogate c = (0xDC00 \<le> c \<and> c \<le> 0xDFFF)"

definition uriUnescaped :: "codeUnit \<Rightarrow> bool" where
  "uriUnescaped c =
     ((0x41 \<le> c \<and> c \<le> 0x5A) \<or> (0x61 \<le> c \<and> c \<le> 0x7A) \<or> (0x30 \<le> c \<and> c \<le> 0x39)
      \<or> c \<in> set (js ''-_.!~*'' @ [0x27] @ js ''()''))"

definition utf8 :: "nat \<Rightarrow> nat list" where
  "utf8 cp =
     (if cp < 0x80 then [cp]
      else if cp < 0x800 then [0xC0 + cp div 64, 0x80 + cp mod 64]
      else if cp < 0x10000 then
        [0xE0 + cp div 4096, 0x80 + (cp div 64) mod 64, 0x80 + cp mod 64]
      else
        [0xF0 + cp div 262144, 0x80 + (cp div 4096) mod 64,
         0x80 + (cp div 64) mod 64, 0x80 + cp mod 64])"

definition hexDigit :: "nat \<Rightarrow> codeUnit" where
  "hexDigit n = (if n < 10 then of_nat (0x30 + n) else of_nat (0x41 + (n - 10)))"

definition percentEscape :: "nat \<Rightarrow> jsstring" where
  "percentEscape octet = [0x25, hexDigit (octet div 16), hexDigit (octet mod 16)]"

definition escapeCodePoint :: "nat \<Rightarrow> jsstring" where
  "escapeCodePoint cp = concat (map percentEscape (utf8 cp))"

definition surrogatePairToCodePoint :: "codeUnit \<Rightarrow> codeUnit \<Rightarrow> nat" where
  "surrogatePairToCodePoint lead trail =
     (unat lead - 0xD800) * 0x400 + (unat trail - 0xDC00) + 0x10000"

definition andThen :: "jsstring \<Rightarrow> error + jsstring \<Rightarrow> error + jsstring" where
  "andThen r rest = (case rest of Inl e \<Rightarrow> Inl e | Inr t \<Rightarrow> Inr (r @ t))"

fun encodeURIComponent :: "jsstring \<Rightarrow> error + jsstring" where
  "encodeURIComponent [] = Inr []"
| "encodeURIComponent [c] =
     (if uriUnescaped c then Inr [c]
      else if isLeadingSurrogate c \<or> isTrailingSurrogate c then Inl URIError
      else Inr (escapeCodePoint (unat c)))"
| "encodeURIComponent (c # d # ds) =
     (if uriUnescaped c then andThen [c] (encodeURIComponent (d # ds))
      else if \<not> isLeadingSurrogate c \<and> \<not> isTrailingSurrogate c then
        andThen (escapeCodePoint (unat c)) (encodeURIComponent (d # ds))
      else if isTrailingSurrogate c then Inl URIError
      else if \<not> isTrailingSurrogate d then Inl URIError
      else andThen (escapeCodePoint (surrogatePairToCodePoint c d)) (encodeURIComponent ds))"

text \<open>A string is well formed when every surrogate stands in a lead-trail pair.\<close>

fun isWellFormed :: "jsstring \<Rightarrow> bool" where
  "isWellFormed [] = True"
| "isWellFormed [c] = (\<not> isLeadingSurrogate c \<and> \<not> isTrailingSurrogate c)"
| "isWellFormed (c # d # ds) =
     (if isLeadingSurrogate c then isTrailingSurrogate d \<and> isWellFormed ds
      else \<not> isTrailingSurrogate c \<and> isWellFormed (d # ds))"

section \<open>Platform calls and the document\<close>

text \<open>
  Elements of the page are handles. The document answers the lookups the source makes
  and holds each element's class list (an ordered set of tokens).
\<close>

type_synonym element = nat

record document =
  getElementById :: "jsstring \<rightharpoonup> element"
  querySelector :: "jsstring \<rightharpoonup> element"
  querySelectorAll :: "jsstring \<Rightarrow> element list"
  classList :: "element \<Rightarrow> jsstring list"

datatype target = Window | Element element

datatype listener = MoveCursor | AddHoverState | RemoveHoverState | HandleScroll

text \<open>
  What a step of the page can do to the world around the components. First, every call of
  a platform interface that occurs in the source, with its arguments (lengths are in
  pixels, \<open>behavior\<close> is always \<open>smooth\<close> and is left out). Then what the rendering
  engine does by itself: \<open>FollowHyperlink\<close> when a static anchor is activated,
  \<open>NativeFormSubmission\<close> when a submit event ends with its default action not prevented
  (the form's values are sent to the page's own address), \<open>ResourceFetch\<close> when an \<open>img\<close>
  element with a \<open>src\<close> is rendered. Last, two interfaces the source never calls, present
  so that their absence can be stated: \<open>Fetch\<close> stands for a request made by script
  (\<open>fetch\<close>, \<open>XMLHttpRequest\<close>, \<open>sendBeacon\<close>, a socket), \<open>StorageWrite\<close> for a write of a
  key and a value to a store that outlives the page (\<open>localStorage\<close>, a cookie, a database).
\<close>

datatype effect =
    PreventDefault
  | WindowOpen jsstring jsstring
  | FollowHyperlink jsstring jsstring
  | WindowScrollTo real
  | ScrollIntoView element
  | AddEventListener target jsstring listener
  | RemoveEventListener target jsstring listener
  | SetStyle element jsstring real
  | Animate element real real nat
  | ClassListAdd element jsstring
  | ClassListRemove element jsstring
  | Observe element real
  | Disconnect
  | NativeFormSubmission
  | ResourceFetch jsstring
  | Fetch jsstring
  | StorageWrite jsstring jsstring

text \<open>What a handler leaves behind: the component state, the calls made, an exception if one escaped.\<close>

record 's outcome =
  newState :: 's
  effects :: "effect list"
  thrown :: "error option"

definition returns :: "'s \<Rightarrow> effect list \<Rightarrow> 's outcome" where
  "returns s es = \<lparr>newState = s, effects = es, thrown = None\<rparr>"

definition throws :: "error \<Rightarrow> 's \<Rightarrow> effect list \<Rightarrow> 's outcome" where
  "throws e s es = \<lparr>newState = s, effects = es, thrown = Some e\<rparr>"

subsection \<open>Class lists\<close>

text \<open>\<open>classList.add\<close> appends a token that is absent; \<open>classList.remove\<close> takes it out.\<close>

definition tokenAdd :: "jsstring \<Rightarrow> jsstring list \<Rightarrow> jsstring list" where
  "tokenAdd t ts = (if t \<in> set ts then ts else ts @ [t])"

definition tokenRemove :: "jsstring \<Rightarrow> jsstring list \<Rightarrow> jsstring list" where
  "tokenRemove t ts = removeAll t ts"

fun perform :: "effect \<Rightarrow> document \<Rightarrow> document" where
  "perform (ClassListAdd el t) d = d\<lparr>classList := (classList d)(el := tokenAdd t (classList d el))\<rparr>"
| "perform (ClassListRemove el t) d =
     d\<lparr>classList := (classList d)(el := tokenRemove t (classList d el))\<rparr>"
| "perform _ d = d"

definition performAll :: "effect list \<Rightarrow> document \<Rightarrow> document" where
  "performAll es d = fold perform es d"

section \<open>CustomCursor\<close>

text \<open>What the effect's closures hold once the effect has passed its two early returns.\<close>

record cursorClosure =
  dot :: "element option"
  outline :: "element option"
  interactiveElements :: "element list"

definition moveCursor :: "cursorClosure \<Rightarrow> real \<Rightarrow> real \<Rightarrow> effect list" where
  "moveCursor cl posX posY =
     (case dot cl of None \<Rightarrow> []
      | Some d \<Rightarrow> [SetStyle d (js ''left'') posX, SetStyle d (js ''top'') posY])
     @ (case outline cl of None \<Rightarrow> [] | Some ol \<Rightarrow> [Animate ol posX posY 500])"

definition addHoverState :: "cursorClosure \<Rightarrow> effect list" where
  "addHoverState cl =
     (case outline cl of None \<Rightarrow> [] | Some ol \<Rightarrow> [ClassListAdd ol (js ''hovered'')])"

definition removeHoverState :: "cursorClosure \<Rightarrow> effect list" where
  "removeHoverState cl =
     (case outline cl of None \<Rightarrow> [] | Some ol \<Rightarrow> [ClassListRemove ol (js ''hovered'')])"

definition interactiveSelector :: jsstring where
  "interactiveSelector = js ''a, button, input, textarea, .interactive''"

text \<open>
  The body of the effect. The two arguments after the document are
  \<open>'ontouchstart' in window\<close> and \<open>navigator.maxTouchPoints\<close>. The result is the
  closure the registered listeners share, or none when the effect returned early.
\<close>

definition CustomCursor_useEffect ::
  "document \<Rightarrow> bool \<Rightarrow> nat \<Rightarrow> (cursorClosure option) outcome" where
  "CustomCursor_useEffect d ontouchstart maxTouchPoints =
     (let dt = querySelector d (js ''.cursor-dot'');
          ol = querySelector d (js ''.cursor-outline'')
      in if dt = None \<or> ol = None then returns None []
         else if ontouchstart \<or> maxTouchPoints > 0 then returns None []
         else
           let els = querySelectorAll d interactiveSelector
           in returns (Some \<lparr>dot = dt, outline = ol, interactiveElements = els\<rparr>)
                (AddEventListener Window (js ''mousemove'') MoveCursor
                 # concat (map (\<lambda>el. [AddEventListener (Element el) (js ''mouseenter'') AddHoverState,
                                        AddEventListener (Element el) (js ''mouseleave'') RemoveHoverState])
                             els)))"

definition CustomCursor_cleanup :: "cursorClosure option \<Rightarrow> (cursorClosure option) outcome" where
  "CustomCursor_cleanup c =
     (case c of None \<Rightarrow> returns None []
      | Some cl \<Rightarrow>
          returns None
            (RemoveEventListener Window (js ''mousemove'') MoveCursor
             # concat (map (\<lambda>el. [RemoveEventListener (Element el) (js ''mouseenter'') AddHoverState,
                                    RemoveEventListener (Element el) (js ''mouseleave'') RemoveHoverState])
                         (interactiveElements cl))))"

section \<open>RevealOnScroll\<close>

text \<open>
  One instance: the flag of \<open>useState(false)\<close> and the targets the instance's
  intersection observer watches (none before the effect ran and after \<open>disconnect\<close>).
\<close>

record revealOnScroll =
  isVisible :: bool
  targets :: "element list"

record intersectionObserverEntry =
  isIntersecting :: bool
  intersectionRatio :: real

definition RevealOnScroll_init :: revealOnScroll where
  "RevealOnScroll_init = \<lparr>isVisible = False, targets = []\<rparr>"

definition threshold :: real where
  "threshold = 1 / 10"

text \<open>The effect: \<open>if (ref.current) observer.observe(ref.current)\<close>.\<close>

definition RevealOnScroll_useEffect :: "element option \<Rightarrow> revealOnScroll \<Rightarrow> revealOnScroll outcome" where
  "RevealOnScroll_useEffect current s =
     (case current of None \<Rightarrow> returns (s\<lparr>targets := []\<rparr>) []
      | Some el \<Rightarrow> returns (s\<lparr>targets := [el]\<rparr>) [Observe el threshold])"

text \<open>
  The observer's callback \<open>([entry]) => { ... }\<close> reads the first entry of the list it is
  given; on an empty list \<open>entry\<close> is undefined and reading its property throws.
\<close>

definition observerCallback ::
  "intersectionObserverEntry list \<Rightarrow> revealOnScroll \<Rightarrow> revealOnScroll outcome" where
  "observerCallback entries s =
     (case entries of [] \<Rightarrow> throws TypeError s []
      | entry # _ \<Rightarrow>
          if isIntersecting entry then returns (s\<lparr>isVisible := True, targets := []\<rparr>) [Disconnect]
          else returns s [])"

definition RevealOnScroll_cleanup :: "revealOnScroll \<Rightarrow> revealOnScroll outcome" where
  "RevealOnScroll_cleanup s = returns (s\<lparr>targets := []\<rparr>) [Disconnect]"

datatype revealEvent =
    EffectRun "element option"
  | Callback "intersectionObserverEntry list"
  | Cleanup

fun revealStep :: "revealOnScroll \<Rightarrow> revealEvent \<Rightarrow> revealOnScroll outcome" where
  "revealStep s (EffectRun current) = RevealOnScroll_useEffect current s"
| "revealStep s (Callback entries) = observerCallback entries s"
| "revealStep s Cleanup = RevealOnScroll_cleanup s"

definition revealRun :: "revealOnScroll \<Rightarrow> revealEvent list \<Rightarrow> revealOnScroll" where
  "revealRun s evs = foldl (\<lambda>t ev. newState (revealStep t ev)) s evs"

text \<open>A callback that sees an intersecting first entry.\<close>

fun intersects :: "revealEvent \<Rightarrow> bool" where
  "intersects (Callback (entry # _)) = isIntersecting entry"
| "intersects _ = False"

section \<open>Navbar\<close>

record navbar =
  scrolled :: bool
  mobileMenuOpen :: bool

definition Navbar_init :: navbar where
  "Navbar_init = \<lparr>scrolled = False, mobileMenuOpen = False\<rparr>"

definition handleScroll :: "real \<Rightarrow> navbar \<Rightarrow> navbar outcome" where
  "handleScroll scrollY s = returns (s\<lparr>scrolled := (scrollY > 20)\<rparr>) []"

definition Navbar_useEffect :: "navbar \<Rightarrow> navbar outcome" where
  "Navbar_useEffect s = returns s [AddEventListener Window (js ''scroll'') HandleScroll]"

definition Navbar_cleanup :: "navbar \<Rightarrow> navbar outcome" where
  "Navbar_cleanup s = returns s [RemoveEventListener Window (js ''scroll'') HandleScroll]"

definition scrollToSection :: "document \<Rightarrow> jsstring \<Rightarrow> navbar \<Rightarrow> navbar outcome" where
  "scrollToSection d ident s =
     (case getElementById d ident of None \<Rightarrow> returns s []
      | Some el \<Rightarrow> returns (s\<lparr>mobileMenuOpen := False\<rparr>) [ScrollIntoView el])"

text \<open>The entries of \<open>navItems\<close>, each a label and a section id.\<close>

definition navItems :: "(jsstring \<times> jsstring) list" where
  "navItems =
     [(js ''Solu'' @ [0xE7, 0xF5] @ js ''es'', js ''solucoes''),
      (js ''Diferenciais'', js ''diferenciais''),
      (js ''Im'' @ [0xF3] @ js ''veis'', js ''imoveis''),
      (js ''Sobre'', js ''sobre''),
      (js ''Feedback'', js ''feedback'')]"

definition logo_onClick :: "navbar \<Rightarrow> navbar outcome" where
  "logo_onClick s = returns s [WindowScrollTo 0]"

definition hamburger_onClick :: "navbar \<Rightarrow> navbar outcome" where
  "hamburger_onClick s = returns (s\<lparr>mobileMenuOpen := \<not> mobileMenuOpen s\<rparr>) []"

section \<open>Hero and Methodology\<close>

text \<open>\<open>document.getElementById(id)?.scrollIntoView({behavior: 'smooth'})\<close>.\<close>

definition scrollIntoViewIfPresent :: "document \<Rightarrow> jsstring \<Rightarrow> effect list" where
  "scrollIntoViewIfPresent d ident =
     (case getElementById d ident of None \<Rightarrow> [] | Some el \<Rightarrow> [ScrollIntoView el])"

definition Hero_primary_onClick :: "document \<Rightarrow> effect list" where
  "Hero_primary_onClick d = scrollIntoViewIfPresent d (js ''contato'')"

definition Hero_secondary_onClick :: "document \<Rightarrow> effect list" where
  "Hero_secondary_onClick d = scrollIntoViewIfPresent d (js ''solucoes'')"

definition Methodology_onClick :: "document \<Rightarrow> effect list" where
  "Methodology_onClick d = scrollIntoViewIfPresent d (js ''contato'')"

section \<open>FAQ\<close>

definition FAQItem_init :: bool where
  "FAQItem_init = False"

text \<open>\<open>onClick={() => setIsOpen(!isOpen)}\<close>.\<close>

definition FAQItem_onClick :: "bool \<Rightarrow> bool" where
  "FAQItem_onClick isOpen = (\<not> isOpen)"

text \<open>The accordion renders four items, each with a state of its own.\<close>

definition FAQ_init :: "bool list" where
  "FAQ_init = [FAQItem_init, FAQItem_init, FAQItem_init, FAQItem_init]"

definition FAQ_click :: "nat \<Rightarrow> bool list \<Rightarrow> bool list" where
  "FAQ_click i items = (if i < length items then items[i := FAQItem_onClick (items ! i)] else items)"

section \<open>ContactForm\<close>

text \<open>
  The form state is the object held by \<open>useState\<close>: a finite map from property names
  to strings, created with the four properties \<open>name\<close>, \<open>instagram\<close>, \<open>niche\<close> and
  \<open>objective\<close>, each the empty string.
\<close>

type_synonym formData = "jsstring \<rightharpoonup> jsstring"

definition ContactForm_init :: formData where
  "ContactForm_init =
     [js ''name'' \<mapsto> [], js ''instagram'' \<mapsto> [], js ''niche'' \<mapsto> [], js ''objective'' \<mapsto> []]"

text \<open>\<open>handleChange\<close>: \<open>setFormData(prev => ({ ...prev, [name]: value }))\<close>.\<close>

definition handleChange :: "jsstring \<Rightarrow> jsstring \<Rightarrow> formData \<Rightarrow> formData" where
  "handleChange name value prev = prev(name \<mapsto> value)"

text \<open>Reading a property inside a template literal; a missing one prints as \<open>undefined\<close>.\<close>

definition interpolate :: "formData \<Rightarrow> jsstring \<Rightarrow> jsstring" where
  "interpolate formData key = (case formData key of None \<Rightarrow> js ''undefined'' | Some v \<Rightarrow> v)"

definition phoneNumber :: jsstring where
  "phoneNumber = js ''5519999592852''"

text \<open>The message template of \<open>handleSubmit\<close>, over the four values.\<close>

definition messageTemplate :: "jsstring \<Rightarrow> jsstring \<Rightarrow> jsstring \<Rightarrow> jsstring \<Rightarrow> jsstring" where
  "messageTemplate nm ig ni ob =
     js ''*Nova Aplica'' @ [0xE7, 0xE3] @ js ''o via Site Capturehouse*'' @ [0x0A, 0x0A]
     @ js ''*Nome:* '' @ nm @ [0x0A]
     @ js ''*Instagram:* '' @ ig @ [0x0A]
     @ js ''*Atua'' @ [0xE7, 0xE3] @ js ''o:* '' @ ni @ [0x0A]
     @ js ''*Objetivo:* '' @ ob"

definition message :: "formData \<Rightarrow> jsstring" where
  "message formData =
     messageTemplate (interpolate formData (js ''name'')) (interpolate formData (js ''instagram''))
       (interpolate formData (js ''niche'')) (interpolate formData (js ''objective''))"

text \<open>\<open>handleSubmit\<close>: the default action is prevented, the message is encoded, the link is opened.\<close>

definition whatsappPrefix :: jsstring where
  "whatsappPrefix = js ''https://wa.me/'' @ phoneNumber @ js ''?text=''"

definition handleSubmit :: "formData \<Rightarrow> formData outcome" where
  "handleSubmit formData =
     (case encodeURIComponent (message formData) of
        Inl e \<Rightarrow> throws e formData [PreventDefault]
      | Inr m \<Rightarrow> returns formData [PreventDefault, WindowOpen (whatsappPrefix @ m) (js ''_blank'')])"

text \<open>The links a handler has opened with \<open>window.open\<close>.\<close>

fun opened :: "effect list \<Rightarrow> jsstring list" where
  "opened [] = []"
| "opened (WindowOpen url t # es) = url # opened es"
| "opened (_ # es) = opened es"

section \<open>Static anchors\<close>

text \<open>The \<open>href\<close> of every anchor of the page, in document order; each has \<open>target="_blank"\<close>.\<close>

definition staticAnchors :: "jsstring list" where
  "staticAnchors =
     [js ''https://www.instagram.com/capturehousebr'',
      js ''https://wa.me/5519999592852'',
      js ''https://www.instagram.com/capturehousebr?igsh=MTg5djBuMm91eGpjaA=='',
      js ''https://wa.me/5519999592852'']"

definition anchor_activate :: "nat \<Rightarrow> effect list" where
  "anchor_activate i =
     (if i < length staticAnchors then [FollowHyperlink (staticAnchors ! i) (js ''_blank'')] else [])"

section \<open>App\<close>

datatype component =
    CustomCursor | Navbar | Hero | InfiniteMarquee | Services | WhyChooseUs | Results
  | Partners | Portfolio | Team | Feedbacks | Methodology | FAQ | ContactForm | Footer
  | WhatsAppButton

text \<open>The children of the root element that \<open>App\<close> returns, in source order.\<close>

definition App :: "component list" where
  "App =
     [CustomCursor, Navbar, Hero, InfiniteMarquee, Services, WhyChooseUs, Results, Partners,
      Portfolio, Team, Feedbacks, Methodology, FAQ, ContactForm, Footer, WhatsAppButton]"

text \<open>\<open>a\<close> is rendered, and \<open>b\<close> is rendered somewhere after it.\<close>

definition rendersBefore :: "component list \<Rightarrow> component \<Rightarrow> component \<Rightarrow> bool" where
  "rendersBefore cs a b = (a \<in> set cs \<and> b \<in> set (tl (dropWhile (\<lambda>c. c \<noteq> a) cs)))"

subsection \<open>The state held by \<open>useState\<close>\<close>

datatype statefulComponent =
    RevealOnScrollComponent | NavbarComponent | FAQItemComponent | ContactFormComponent

datatype hookValue = BooleanValue bool | ObjectValue formData

text \<open>The initial value of each \<open>useState\<close> call of a component, in call order.\<close>

fun useStates :: "statefulComponent \<Rightarrow> hookValue list" where
  "useStates RevealOnScrollComponent = [BooleanValue (isVisible RevealOnScroll_init)]"
| "useStates NavbarComponent =
     [BooleanValue (scrolled Navbar_init), BooleanValue (mobileMenuOpen Navbar_init)]"
| "useStates FAQItemComponent = [BooleanValue FAQItem_init]"
| "useStates ContactFormComponent = [ObjectValue ContactForm_init]"

fun isBoolean :: "hookValue \<Rightarrow> bool" where
  "isBoolean (BooleanValue _) = True"
| "isBoolean (ObjectValue _) = False"

subsection \<open>The page as one state machine\<close>

record app =
  page :: document
  cursor :: "cursorClosure option"
  nav :: navbar
  reveals :: "revealOnScroll list"
  faq :: "bool list"
  form :: formData

datatype event =
    CursorMount bool nat
  | CursorUnmount
  | MouseMove real real
  | MouseEnter element
  | MouseLeave element
  | NavbarMount
  | NavbarUnmount
  | WindowScroll real
  | LogoClick
  | NavItemClick nat
  | ConsultoriaClick
  | HamburgerClick
  | HeroPrimaryClick
  | HeroSecondaryClick
  | MethodologyClick
  | Reveal nat revealEvent
  | FAQItemClick nat
  | FormChange jsstring jsstring
  | FormSubmit
  | AnchorClick nat

text \<open>
  The default action of a submit event: unless the handler called \<open>preventDefault\<close>, the
  engine submits the form.
\<close>

definition submitDefault :: "effect list \<Rightarrow> effect list" where
  "submitDefault es = (if PreventDefault \<in> set es then [] else [NativeFormSubmission])"

text \<open>The calls are carried out on the document; the exception, if any, is reported.\<close>

definition settle :: "app \<Rightarrow> effect list \<Rightarrow> error option \<Rightarrow> app outcome" where
  "settle a es t = \<lparr>newState = a\<lparr>page := performAll es (page a)\<rparr>, effects = es, thrown = t\<rparr>"

definition withNav :: "app \<Rightarrow> navbar outcome \<Rightarrow> app outcome" where
  "withNav a r = settle (a\<lparr>nav := newState r\<rparr>) (effects r) (thrown r)"

fun dispatch :: "app \<Rightarrow> event \<Rightarrow> app outcome" where
  "dispatch a (CursorMount ontouchstart maxTouchPoints) =
     (let r = CustomCursor_useEffect (page a) ontouchstart maxTouchPoints
      in settle (a\<lparr>cursor := newState r\<rparr>) (effects r) (thrown r))"
| "dispatch a CursorUnmount =
     (let r = CustomCursor_cleanup (cursor a)
      in settle (a\<lparr>cursor := newState r\<rparr>) (effects r) (thrown r))"
| "dispatch a (MouseMove x y) =
     (case cursor a of None \<Rightarrow> settle a [] None | Some cl \<Rightarrow> settle a (moveCursor cl x y) None)"
| "dispatch a (MouseEnter el) =
     (case cursor a of None \<Rightarrow> settle a [] None
      | Some cl \<Rightarrow>
          if el \<in> set (interactiveElements cl) then settle a (addHoverState cl) None
          else settle a [] None)"
| "dispatch a (MouseLeave el) =
     (case cursor a of None \<Rightarrow> settle a [] None
      | Some cl \<Rightarrow>
          if el \<in> set (interactiveElements cl) then settle a (removeHoverState cl) None
          else settle a [] None)"
| "dispatch a NavbarMount = withNav a (Navbar_useEffect (nav a))"
| "dispatch a NavbarUnmount = withNav a (Navbar_cleanup (nav a))"
| "dispatch a (WindowScroll scrollY) = withNav a (handleScroll scrollY (nav a))"
| "dispatch a LogoClick = withNav a (logo_onClick (nav a))"
| "dispatch a (NavItemClick i) =
     (if i < length navItems then withNav a (scrollToSection (page a) (snd (navItems ! i)) (nav a))
      else settle a [] None)"
| "dispatch a ConsultoriaClick = withNav a (scrollToSection (page a) (js ''contato'') (nav a))"
| "dispatch a HamburgerClick = withNav a (hamburger_onClick (nav a))"
| "dispatch a HeroPrimaryClick = settle a (Hero_primary_onClick (page a)) None"
| "dispatch a HeroSecondaryClick = settle a (Hero_secondary_onClick (page a)) None"
| "dispatch a MethodologyClick = settle a (Methodology_onClick (page a)) None"
| "dispatch a (Reveal i ev) =
     (if i < length (reveals a) then
        (let r = revealStep (reveals a ! i) ev
         in settle (a\<lparr>reveals := (reveals a)[i := newState r]\<rparr>) (effects r) (thrown r))
      else settle a [] None)"
| "dispatch a (FAQItemClick i) = settle (a\<lparr>faq := FAQ_click i (faq a)\<rparr>) [] None"
| "dispatch a (FormChange name value) = settle (a\<lparr>form := handleChange name value (form a)\<rparr>) [] None"
| "dispatch a FormSubmit =
     (let r = handleSubmit (form a)
      in settle (a\<lparr>form := newState r\<rparr>) (effects r @ submitDefault (effects r)) (thrown r))"
| "dispatch a (AnchorClick i) = settle a (anchor_activate i) None"

text \<open>The calls that reach beyond the page.\<close>

fun outbound :: "effect \<Rightarrow> bool" where
  "outbound (WindowOpen _ _) = True"
| "outbound (FollowHyperlink _ _) = True"
| "outbound _ = False"

text \<open>The requests sent over the network other than opening a link.\<close>

fun networkRequest :: "effect \<Rightarrow> bool" where
  "networkRequest NativeFormSubmission = True"
| "networkRequest (ResourceFetch _) = True"
| "networkRequest (Fetch _) = True"
| "networkRequest _ = False"

fun storageWrite :: "effect \<Rightarrow> bool" where
  "storageWrite (StorageWrite _ _) = True"
| "storageWrite _ = False"

subsection \<open>Loading the page\<close>

text \<open>
  The \<open>src\<close> of every \<open>img\<close> element the page renders, in document order: the four
  \<open>PropertyCard\<close>s of \<open>Portfolio\<close>, the four \<open>TeamCard\<close>s of \<open>Team\<close>, the four
  \<open>VideoTestimonialCard\<close>s of \<open>Feedbacks\<close>.
\<close>

definition imageSources :: "jsstring list" where
  "imageSources =
     [js ''https://images.unsplash.com/photo-1613490493576-7fde63acd811?auto=format&fit=crop&q=80'',
      js ''https://images.unsplash.com/photo-1512917774080-9991f1c4c750?auto=format&fit=crop&q=80'',
      js ''https://images.unsplash.com/photo-1600585154340-be6161a56a0c?auto=format&fit=crop&q=80'',
      js ''https://images.unsplash.com/photo-1600607687939-ce8a6c25118c?auto=format&fit=crop&q=80'',
      js ''https://images.unsplash.com/photo-1560250097-0b93528c311a?auto=format&fit=crop&q=80'',
      js ''https://images.unsplash.com/photo-1472099645785-5658abf4ff4e?auto=format&fit=crop&q=80'',
      js ''https://images.unsplash.com/photo-1519085360753-af0119f7cbe7?auto=format&fit=crop&q=80'',
      js ''https://images.unsplash.com/photo-1500648767791-00dcc994a43e?auto=format&fit=crop&q=80'',
      js ''https://images.unsplash.com/photo-1507003211169-0a1dd7228f2d?auto=format&fit=crop&q=80'',
      js ''https://images.unsplash.com/photo-1573496359142-b8d87734a5a2?auto=format&fit=crop&q=80'',
      js ''https://images.unsplash.com/photo-1560250097-0b93528c311a?auto=format&fit=crop&q=80'',
      js ''https://images.unsplash.com/photo-1556474835-b0f3ac40d4d1?auto=format&fit=crop&q=80'']"

text \<open>
  How many \<open>RevealOnScroll\<close> instances each child of \<open>App\<close> renders, its own and those of
  the cards, rows and items it contains.
\<close>

fun revealInstances :: "component \<Rightarrow> nat" where
  "revealInstances Hero = 1"
| "revealInstances Services = 5"
| "revealInstances WhyChooseUs = 1"
| "revealInstances Results = 1"
| "revealInstances Portfolio = 7"
| "revealInstances Team = 5"
| "revealInstances Feedbacks = 5"
| "revealInstances Methodology = 2"
| "revealInstances FAQ = 5"
| "revealInstances ContactForm = 1"
| "revealInstances _ = 0"

text \<open>
  The state of a freshly rendered page over a document: every \<open>useState\<close> at its initial
  value. Nothing is read from outside the page.
\<close>

definition App_init :: "document \<Rightarrow> app" where
  "App_init d =
     \<lparr>page = d, cursor = None, nav = Navbar_init,
      reveals = replicate (sum_list (map revealInstances App)) RevealOnScroll_init,
      faq = FAQ_init, form = ContactForm_init\<rparr>"

text \<open>
  The browser holds the page and, beside it, the store that outlives a page. It either
  hands an event to the page or loads the page anew over the document it was served.
\<close>

record browser =
  current :: app
  stored :: "jsstring \<rightharpoonup> jsstring"

datatype browserEvent = PageEvent event | PageLoad document

fun persist :: "effect \<Rightarrow> (jsstring \<rightharpoonup> jsstring) \<Rightarrow> (jsstring \<rightharpoonup> jsstring)" where
  "persist (StorageWrite k v) st = st(k \<mapsto> v)"
| "persist _ st = st"

fun browserStep :: "browser \<Rightarrow> browserEvent \<Rightarrow> browser outcome" where
  "browserStep b (PageEvent ev) =
     (let r = dispatch (current b) ev
      in \<lparr>newState = \<lparr>current = newState r, stored = fold persist (effects r) (stored b)\<rparr>,
          effects = effects r, thrown = thrown r\<rparr>)"
| "browserStep b (PageLoad d) =
     returns \<lparr>current = App_init d, stored = stored b\<rparr> (map ResourceFetch imageSources)"

text \<open>A filled-in form, used to run the handlers on concrete values.\<close>

definition exampleForm :: formData where
  "exampleForm =
     [js ''name'' \<mapsto> js ''Ana'', js ''instagram'' \<mapsto> js ''@ana'', js ''niche'' \<mapsto> js ''Luxo'',
      js ''objective'' \<mapsto> js ''VGV'']"

definition emptyDocument :: document where
  "emptyDocument =
     \<lparr>getElementById = Map.empty, querySelector = Map.empty, querySelectorAll = (\<lambda>_. []),
      classList = (\<lambda>_. [])\<rparr>"

definition exampleDocument :: document where
  "exampleDocument =
     \<lparr>getElementById = [js ''contato'' \<mapsto> 10, js ''solucoes'' \<mapsto> 11],
      querySelector = [js ''.cursor-dot'' \<mapsto> 1, js ''.cursor-outline'' \<mapsto> 2],
      querySelectorAll = (\<lambda>sel. if sel = interactiveSelector then [20, 21] else []),
      classList = (\<lambda>el. if el = 2 then [js ''cursor-outline''] else [])\<rparr>"

definition exampleClosure :: cursorClosure where
  "exampleClosure = \<lparr>dot = Some 1, outline = Some 2, interactiveElements = [20, 21]\<rparr>"

definition exampleApp :: "document \<Rightarrow> app" where
  "exampleApp d =
     \<lparr>page = d, cursor = None, nav = Navbar_init,
      reveals = [RevealOnScroll_init, RevealOnScroll_init], faq = FAQ_init, form = exampleForm\<rparr>"

definition exampleBrowser :: browser where
  "exampleBrowser =
     \<lparr>current = exampleApp exampleDocument, stored = [js ''visited'' \<mapsto> js ''1'']\<rparr>"

definition entryOutside :: intersectionObserverEntry where
  "entryOutside = \<lparr>isIntersecting = False, intersectionRatio = 0\<rparr>"

definition entryInside :: intersectionObserverEntry where
  "entryInside = \<lparr>isIntersecting = True, intersectionRatio = 1 / 2\<rparr>"

definition exampleTrace :: "revealEvent list" where
  "exampleTrace =
     [EffectRun (Some 5), Callback [entryOutside], Callback [entryInside], Callback [entryOutside],
      Cleanup]"

section \<open>Properties of encodeURIComponent\<close>

lemma uriUnescaped_ascii: "uriUnescaped c \<Longrightarrow> c < 0x80"
  unfolding uriUnescaped_def js_def by (auto simp: word_le_nat_alt word_less_nat_alt)

lemma uriUnescaped_not_surrogate:
  "uriUnescaped c \<Longrightarrow> \<not> isLeadingSurrogate c \<and> \<not> isTrailingSurrogate c"
  using uriUnescaped_ascii [of c] unfolding isLeadingSurrogate_def isTrailingSurrogate_def
  by (auto simp: word_le_nat_alt word_less_nat_alt)

lemma lead_not_trail: "isLeadingSurrogate c \<Longrightarrow> \<not> isTrailingSurrogate c"
  unfolding isLeadingSurrogate_def isTrailingSurrogate_def
  by (auto simp: word_le_nat_alt)

lemma isWellFormed_encodes: "isWellFormed s \<Longrightarrow> \<exists>r. encodeURIComponent s = Inr r"
  by (induction s rule: isWellFormed.induct)
     (auto simp: andThen_def dest: uriUnescaped_not_surrogate lead_not_trail split: if_splits)

lemma isWellFormed_Cons:
  "\<not> isLeadingSurrogate c \<Longrightarrow> \<not> isTrailingSurrogate c \<Longrightarrow> isWellFormed (c # b) = isWellFormed b"
  by (cases b) auto

lemma isWellFormed_append: "isWellFormed a \<Longrightarrow> isWellFormed b \<Longrightarrow> isWellFormed (a @ b)"
  by (induction a rule: isWellFormed.induct)
    (auto simp: isWellFormed_Cons split: if_splits)

lemma latin1_not_surrogate:
  "c < 0x100 \<Longrightarrow> \<not> isLeadingSurrogate c \<and> \<not> isTrailingSurrogate c"
  unfolding isLeadingSurrogate_def isTrailingSurrogate_def
  by (auto simp: word_le_nat_alt word_less_nat_alt)

lemma js_latin1: "c \<in> set (js s) \<Longrightarrow> c < 0x100"
proof -
  assume "c \<in> set (js s)"
  then obtain ch where c: "c = of_nat (of_char ch)"
    by (auto simp: js_def)
  have "unat c \<le> of_char ch"
    unfolding c by (simp add: unat_of_nat)
  also have "\<dots> < 256"
    by simp
  finally show ?thesis
    by (simp add: word_less_nat_alt)
qed

lemma isWellFormed_latin1: "\<forall>c \<in> set s. c < 0x100 \<Longrightarrow> isWellFormed s"
  by (induction s) (auto simp: isWellFormed_Cons latin1_not_surrogate)

lemma isWellFormed_js: "isWellFormed (js s)"
  by (rule isWellFormed_latin1) (auto dest: js_latin1)


lemma isWellFormed_messageTemplate:
  assumes "isWellFormed nm" "isWellFormed ig" "isWellFormed ni" "isWellFormed ob"
  shows "isWellFormed (messageTemplate nm ig ni ob)"
proof -
  have lit: "isWellFormed [0xE7, 0xE3]" "isWellFormed [0x0A]" "isWellFormed [0x0A, 0x0A]"
    by (simp_all add: isLeadingSurrogate_def isTrailingSurrogate_def)
  show ?thesis
    unfolding messageTemplate_def
    by (intro isWellFormed_append isWellFormed_js lit assms)
qed

lemma encodeURIComponent_example:
  "encodeURIComponent (messageTemplate (js ''Ana'') (js ''@ana'') (js ''Luxo'') (js ''VGV''))
     = Inr (js ''*Nova%20Aplica%C3%A7%C3%A3o%20via%20Site%20Capturehouse*%0A%0A*Nome%3A*%20Ana%0A*Instagram%3A*%20%40ana%0A*Atua%C3%A7%C3%A3o%3A*%20Luxo%0A*Objetivo%3A*%20VGV'')"
  by code_simp

section \<open>ContactForm: the link opened on submit\<close>

text \<open>
  C1 (as the code has it). For every form state whose four values are well-formed strings
  (no surrogate without its partner), \<open>handleSubmit\<close> prevents the default action and then
  opens exactly one link: \<open>https://wa.me/5519999592852?text=\<close> followed by
  \<open>encodeURIComponent\<close> of the message template with the values after the labels Nome,
  Instagram, Atua(U+00E7)(U+00E3)o and Objetivo, in that order, in a new tab; nothing is thrown.
\<close>

theorem handleSubmit_opens_link:
  assumes "formData (js ''name'') = Some nm" and "formData (js ''instagram'') = Some ig"
    and "formData (js ''niche'') = Some ni" and "formData (js ''objective'') = Some ob"
    and "isWellFormed nm" and "isWellFormed ig" and "isWellFormed ni" and "isWellFormed ob"
  shows "\<exists>m. encodeURIComponent (messageTemplate nm ig ni ob) = Inr m
           \<and> opened (effects (handleSubmit formData))
               = [js ''https://wa.me/5519999592852?text='' @ m]
           \<and> effects (handleSubmit formData)
               = [PreventDefault,
                  WindowOpen (js ''https://wa.me/5519999592852?text='' @ m) (js ''_blank'')]
           \<and> thrown (handleSubmit formData) = None"
proof -
  have msg: "message formData = messageTemplate nm ig ni ob"
    using assms(1-4) by (simp add: message_def interpolate_def)
  obtain m where m: "encodeURIComponent (messageTemplate nm ig ni ob) = Inr m"
    using isWellFormed_encodes [OF isWellFormed_messageTemplate [OF assms(5-8)]] by blast
  have pre: "whatsappPrefix = js ''https://wa.me/5519999592852?text=''"
    by (simp add: whatsappPrefix_def phoneNumber_def js_def)
  show ?thesis
    using m by (simp add: handleSubmit_def msg pre returns_def)
qed

lemma exampleForm_fields:
  "exampleForm (js ''name'') = Some (js ''Ana'')"
  "exampleForm (js ''instagram'') = Some (js ''@ana'')"
  "exampleForm (js ''niche'') = Some (js ''Luxo'')"
  "exampleForm (js ''objective'') = Some (js ''VGV'')"
  by (simp_all add: exampleForm_def js_def)

theorem handleSubmit_opens_link_witness:
  "exampleForm (js ''name'') = Some (js ''Ana'') \<and> exampleForm (js ''instagram'') = Some (js ''@ana'')
   \<and> exampleForm (js ''niche'') = Some (js ''Luxo'') \<and> exampleForm (js ''objective'') = Some (js ''VGV'')
   \<and> isWellFormed (js ''Ana'') \<and> isWellFormed (js ''@ana'') \<and> isWellFormed (js ''Luxo'')
   \<and> isWellFormed (js ''VGV'')
   \<and> opened (effects (handleSubmit exampleForm))
       = [js ''https://wa.me/5519999592852?text=''
          @ js ''*Nova%20Aplica%C3%A7%C3%A3o%20via%20Site%20Capturehouse*%0A%0A*Nome%3A*%20Ana%0A*Instagram%3A*%20%40ana%0A*Atua%C3%A7%C3%A3o%3A*%20Luxo%0A*Objetivo%3A*%20VGV'']"
proof -
  obtain m where
    m: "encodeURIComponent (messageTemplate (js ''Ana'') (js ''@ana'') (js ''Luxo'') (js ''VGV'')) = Inr m"
    and o: "opened (effects (handleSubmit exampleForm)) = [js ''https://wa.me/5519999592852?text='' @ m]"
    using handleSubmit_opens_link [OF exampleForm_fields isWellFormed_js isWellFormed_js
        isWellFormed_js isWellFormed_js]
    by blast
  from m have "m = js ''*Nova%20Aplica%C3%A7%C3%A3o%20via%20Site%20Capturehouse*%0A%0A*Nome%3A*%20Ana%0A*Instagram%3A*%20%40ana%0A*Atua%C3%A7%C3%A3o%3A*%20Luxo%0A*Objetivo%3A*%20VGV''"
    unfolding encodeURIComponent_example by simp
  with o show ?thesis
    by (simp add: exampleForm_fields isWellFormed_js)
qed

text \<open>
  C1 as stated fails: a value that holds a lone surrogate makes \<open>encodeURIComponent\<close>
  throw, and \<open>handleSubmit\<close> ends before \<open>window.open\<close>: no link is opened.
\<close>

theorem handleSubmit_lone_surrogate_opens_nothing:
  "opened (effects (handleSubmit (handleChange (js ''name'') [0xD800] ContactForm_init))) = []
   \<and> thrown (handleSubmit (handleChange (js ''name'') [0xD800] ContactForm_init)) = Some URIError"
  by code_simp

section \<open>ContactForm: the form state\<close>

text \<open>
  C8. For every form state and every change event whose field name is one of \<open>name\<close>,
  \<open>instagram\<close>, \<open>niche\<close>, \<open>objective\<close>, \<open>handleChange\<close> sets that field to the event's
  value and leaves every other field as it was.
\<close>

theorem handleChange_sets_one_field:
  assumes "name \<in> {js ''name'', js ''instagram'', js ''niche'', js ''objective''}"
  shows "handleChange name value prev name = Some value
         \<and> (\<forall>other. other \<noteq> name \<longrightarrow> handleChange name value prev other = prev other)"
  by (simp add: handleChange_def)

theorem handleChange_sets_one_field_witness:
  "js ''niche'' \<in> {js ''name'', js ''instagram'', js ''niche'', js ''objective''}
   \<and> handleChange (js ''niche'') (js ''Luxo'') ContactForm_init (js ''niche'') = Some (js ''Luxo'')
   \<and> handleChange (js ''niche'') (js ''Luxo'') ContactForm_init (js ''name'') = Some []
   \<and> handleChange (js ''niche'') (js ''Luxo'') ContactForm_init (js ''instagram'') = Some []
   \<and> handleChange (js ''niche'') (js ''Luxo'') ContactForm_init (js ''objective'') = Some []"
proof -
  have mem: "js ''niche'' \<in> {js ''name'', js ''instagram'', js ''niche'', js ''objective''}"
    by simp
  have init: "ContactForm_init (js ''name'') = Some []" "ContactForm_init (js ''instagram'') = Some []"
    "ContactForm_init (js ''objective'') = Some []"
    by (simp_all add: ContactForm_init_def js_def)
  have ne: "js ''name'' \<noteq> js ''niche''" "js ''instagram'' \<noteq> js ''niche''"
    "js ''objective'' \<noteq> js ''niche''"
    by (simp_all add: js_def)
  show ?thesis
    using handleChange_sets_one_field [OF mem, of "js ''Luxo''" ContactForm_init] mem init ne
    by simp
qed

text \<open>
  C9. Submitting leaves the form state as it is: whatever the four values are, and whether
  the link is opened or the encoding throws, the state after \<open>handleSubmit\<close> is the state
  before it, also as a step of the whole page.
\<close>

theorem handleSubmit_keeps_formData:
  "newState (handleSubmit formData) = formData
   \<and> form (newState (dispatch a FormSubmit)) = form a"
  by (simp add: handleSubmit_def returns_def throws_def settle_def split: sum.split)

section \<open>RevealOnScroll: the visibility flag\<close>

lemma revealStep_isVisible:
  "isVisible (newState (revealStep s ev)) = (isVisible s \<or> intersects ev)"
  by (cases ev rule: intersects.cases)
     (auto simp: RevealOnScroll_useEffect_def observerCallback_def RevealOnScroll_cleanup_def
        returns_def throws_def split: option.splits list.splits)

lemma revealRun_isVisible:
  "isVisible (revealRun s evs) = (isVisible s \<or> (\<exists>ev \<in> set evs. intersects ev))"
  unfolding revealRun_def
  by (induction evs arbitrary: s) (auto simp: revealStep_isVisible)

text \<open>
  C2 (as the code has it). The flag of a \<open>RevealOnScroll\<close> instance starts false; the observer is created with
  threshold 0.1; after any sequence of effect runs, observer callbacks and clean-ups the
  flag is true exactly when some callback so far was handed a list whose first entry has
  \<open>isIntersecting\<close>. Such a callback sets the flag and disconnects the observer (it is left
  without targets). From a state with the flag set, no sequence of steps clears it.
\<close>

theorem reveal_flag_latches:
  "isVisible RevealOnScroll_init = False
   \<and> effects (RevealOnScroll_useEffect (Some el) RevealOnScroll_init) = [Observe el (1 / 10)]
   \<and> isVisible (revealRun RevealOnScroll_init evs) = (\<exists>ev \<in> set evs. intersects ev)
   \<and> (isIntersecting entry \<longrightarrow>
        isVisible (newState (observerCallback (entry # rest) s))
        \<and> targets (newState (observerCallback (entry # rest) s)) = []
        \<and> effects (observerCallback (entry # rest) s) = [Disconnect])
   \<and> (isVisible s \<longrightarrow> isVisible (revealRun s later))"
  by (simp add: revealRun_isVisible RevealOnScroll_init_def RevealOnScroll_useEffect_def
      threshold_def observerCallback_def returns_def)

theorem reveal_flag_latches_witness:
  "isIntersecting entryInside
   \<and> (\<exists>ev \<in> set exampleTrace. intersects ev)
   \<and> isVisible (revealRun RevealOnScroll_init exampleTrace)
   \<and> \<not> isVisible (revealRun RevealOnScroll_init [EffectRun (Some 5), Callback [entryOutside]])
   \<and> isVisible (newState (observerCallback [entryInside] RevealOnScroll_init))
   \<and> targets (newState (observerCallback [entryInside] RevealOnScroll_init)) = []
   \<and> isVisible (revealRun (newState (observerCallback [entryInside] RevealOnScroll_init))
        [Callback [entryOutside], Cleanup, EffectRun (Some 5)])"
  using reveal_flag_latches [of 5 exampleTrace entryInside "[]" RevealOnScroll_init]
    reveal_flag_latches [of 5 "[EffectRun (Some 5), Callback [entryOutside]]" entryInside "[]"
      "newState (observerCallback [entryInside] RevealOnScroll_init)"
      "[Callback [entryOutside], Cleanup, EffectRun (Some 5)]"]
  by (simp add: exampleTrace_def entryInside_def entryOutside_def)

text \<open>
  C2 as stated fails: the callback reads only the first entry of the list it is handed.
  When an intersecting entry comes second in a list, the flag stays false, the observer is
  not disconnected and goes on watching the element.
\<close>

theorem reveal_ignores_later_entry:
  "isIntersecting entryInside
   \<and> \<not> isVisible (revealRun RevealOnScroll_init
          [EffectRun (Some 5), Callback [entryOutside, entryInside]])
   \<and> targets (revealRun RevealOnScroll_init
          [EffectRun (Some 5), Callback [entryOutside, entryInside]]) = [5]
   \<and> effects (observerCallback [entryOutside, entryInside]
          (revealRun RevealOnScroll_init [EffectRun (Some 5)])) = []"
  by (simp add: revealRun_def RevealOnScroll_init_def RevealOnScroll_useEffect_def
      observerCallback_def returns_def entryInside_def entryOutside_def)

section \<open>Lookups that find nothing\<close>

text \<open>
  C3. When a lookup finds no element the code does nothing. If \<open>.cursor-dot\<close> or
  \<open>.cursor-outline\<close> is missing, the effect of \<open>CustomCursor\<close> registers no listener and
  keeps no closure. If \<open>getElementById\<close> returns null, \<open>scrollToSection\<close> makes no call and
  returns the Navbar state as it was (so \<open>mobileMenuOpen\<close> is unchanged), and the scroll
  buttons of Hero and Methodology make no call. As steps of the page, each of these leaves
  the whole state unchanged.
\<close>

theorem missing_element_does_nothing:
  "(querySelector d (js ''.cursor-dot'') = None \<or> querySelector d (js ''.cursor-outline'') = None
      \<longrightarrow> CustomCursor_useEffect d ontouchstart maxTouchPoints = returns None []
          \<and> (cursor a = None \<longrightarrow> page a = d \<longrightarrow>
                newState (dispatch a (CursorMount ontouchstart maxTouchPoints)) = a))
   \<and> (getElementById d ident = None \<longrightarrow> scrollToSection d ident s = returns s [])
   \<and> (getElementById (page a) (js ''contato'') = None \<longrightarrow>
        Hero_primary_onClick (page a) = [] \<and> Methodology_onClick (page a) = []
        \<and> newState (dispatch a HeroPrimaryClick) = a \<and> newState (dispatch a MethodologyClick) = a
        \<and> newState (dispatch a ConsultoriaClick) = a)
   \<and> (getElementById (page a) (js ''solucoes'') = None \<longrightarrow>
        Hero_secondary_onClick (page a) = [] \<and> newState (dispatch a HeroSecondaryClick) = a)
   \<and> (i < length navItems \<longrightarrow> getElementById (page a) (snd (navItems ! i)) = None \<longrightarrow>
        newState (dispatch a (NavItemClick i)) = a \<and> effects (dispatch a (NavItemClick i)) = [])"
  by (auto simp: CustomCursor_useEffect_def scrollToSection_def Hero_primary_onClick_def
      Methodology_onClick_def Hero_secondary_onClick_def scrollIntoViewIfPresent_def
      settle_def withNav_def returns_def performAll_def Let_def)

theorem missing_element_does_nothing_witness:
  "querySelector emptyDocument (js ''.cursor-dot'') = None
   \<and> CustomCursor_useEffect emptyDocument False 0 = returns None []
   \<and> cursor (exampleApp emptyDocument) = None
   \<and> newState (dispatch (exampleApp emptyDocument) (CursorMount False 0)) = exampleApp emptyDocument
   \<and> getElementById emptyDocument (js ''sobre'') = None
   \<and> scrollToSection emptyDocument (js ''sobre'') \<lparr>scrolled = True, mobileMenuOpen = True\<rparr>
       = returns \<lparr>scrolled = True, mobileMenuOpen = True\<rparr> []
   \<and> getElementById (page (exampleApp emptyDocument)) (js ''contato'') = None
   \<and> newState (dispatch (exampleApp emptyDocument) HeroPrimaryClick) = exampleApp emptyDocument
   \<and> newState (dispatch (exampleApp emptyDocument) MethodologyClick) = exampleApp emptyDocument
   \<and> getElementById (page (exampleApp emptyDocument)) (js ''solucoes'') = None
   \<and> newState (dispatch (exampleApp emptyDocument) HeroSecondaryClick) = exampleApp emptyDocument
   \<and> (0 :: nat) < length navItems
   \<and> getElementById (page (exampleApp emptyDocument)) (snd (navItems ! 0)) = None
   \<and> newState (dispatch (exampleApp emptyDocument) (NavItemClick 0)) = exampleApp emptyDocument"
proof -
  have lookups:
    "querySelector emptyDocument (js ''.cursor-dot'') = None"
    "cursor (exampleApp emptyDocument) = None"
    "page (exampleApp emptyDocument) = emptyDocument"
    "getElementById emptyDocument k = None"
    "getElementById (page (exampleApp emptyDocument)) k = None" for k
    by (simp_all add: emptyDocument_def exampleApp_def)
  have len: "(0 :: nat) < length navItems"
    by (simp add: navItems_def)
  show ?thesis
    using missing_element_does_nothing [of emptyDocument False 0 "exampleApp emptyDocument"
        "js ''sobre''" "\<lparr>scrolled = True, mobileMenuOpen = True\<rparr>" 0]
    by (simp only: lookups len simp_thms)
qed

section \<open>CustomCursor: the hover class\<close>

lemma tokenRemove_tokenAdd: "tokenRemove t (tokenAdd t ts) = tokenRemove t ts"
  by (simp add: tokenAdd_def tokenRemove_def)

lemma tokenAdd_tokenAdd: "tokenAdd t (tokenAdd t ts) = tokenAdd t ts"
  by (simp add: tokenAdd_def)

lemma remove_after_add:
  "performAll (removeHoverState cl) (performAll (addHoverState cl) d)
     = performAll (removeHoverState cl) d"
  by (cases "outline cl")
     (simp_all add: addHoverState_def removeHoverState_def performAll_def tokenRemove_tokenAdd)

lemma add_after_add:
  "performAll (addHoverState cl) (performAll (addHoverState cl) d) = performAll (addHoverState cl) d"
  by (cases "outline cl")
     (simp_all add: addHoverState_def performAll_def tokenAdd_tokenAdd)

lemma classList_removeHoverState:
  "outline cl = Some ol \<Longrightarrow>
     classList (performAll (removeHoverState cl) d) el
       = (if el = ol then tokenRemove (js ''hovered'') (classList d ol) else classList d el)"
  by (simp add: removeHoverState_def performAll_def)

text \<open>
  C6. On any class list, adding \<open>hovered\<close> and then removing it gives the list with
  \<open>hovered\<close> removed: as a set, the start without \<open>hovered\<close>. Adding twice is adding once.
  The same holds for \<open>addHoverState\<close> and \<open>removeHoverState\<close> carried out on the document:
  the outline ends with its class list minus \<open>hovered\<close>, and no other element changes.
\<close>

theorem hover_state_add_then_remove:
  "tokenRemove (js ''hovered'') (tokenAdd (js ''hovered'') ts) = removeAll (js ''hovered'') ts
   \<and> set (tokenRemove (js ''hovered'') (tokenAdd (js ''hovered'') ts)) = set ts - {js ''hovered''}
   \<and> tokenAdd (js ''hovered'') (tokenAdd (js ''hovered'') ts) = tokenAdd (js ''hovered'') ts
   \<and> performAll (removeHoverState cl) (performAll (addHoverState cl) d)
       = performAll (removeHoverState cl) d
   \<and> performAll (addHoverState cl) (performAll (addHoverState cl) d)
       = performAll (addHoverState cl) d
   \<and> (outline cl = Some ol \<longrightarrow>
        classList (performAll (removeHoverState cl) (performAll (addHoverState cl) d)) ol
          = removeAll (js ''hovered'') (classList d ol)
        \<and> js ''hovered''
            \<notin> set (classList (performAll (removeHoverState cl) (performAll (addHoverState cl) d)) ol)
        \<and> (\<forall>el. el \<noteq> ol \<longrightarrow>
             classList (performAll (removeHoverState cl) (performAll (addHoverState cl) d)) el
               = classList d el))"
proof -
  have "tokenRemove (js ''hovered'') ts = removeAll (js ''hovered'') ts" for ts
    by (simp add: tokenRemove_def)
  then show ?thesis
    by (simp add: tokenRemove_tokenAdd tokenAdd_tokenAdd remove_after_add add_after_add
        classList_removeHoverState)
qed

theorem hover_state_add_then_remove_witness:
  "outline exampleClosure = Some 2
   \<and> classList (performAll (addHoverState exampleClosure) exampleDocument) 2
       = [js ''cursor-outline'', js ''hovered'']
   \<and> classList (performAll (removeHoverState exampleClosure)
         (performAll (addHoverState exampleClosure) exampleDocument)) 2
       = [js ''cursor-outline'']
   \<and> (3 :: nat) \<noteq> 2
   \<and> classList (performAll (removeHoverState exampleClosure)
         (performAll (addHoverState exampleClosure) exampleDocument)) 3
       = classList exampleDocument 3"
proof -
  have ol: "outline exampleClosure = Some 2"
    by (simp add: exampleClosure_def)
  have start: "classList exampleDocument 2 = [js ''cursor-outline'']"
    by (simp add: exampleDocument_def)
  have ne: "js ''cursor-outline'' \<noteq> js ''hovered''"
    by (simp add: js_def)
  have added: "classList (performAll (addHoverState exampleClosure) exampleDocument) 2
                 = [js ''cursor-outline'', js ''hovered'']"
    using ne by (simp add: addHoverState_def performAll_def ol start tokenAdd_def)
  have removed:
    "classList (performAll (removeHoverState exampleClosure)
        (performAll (addHoverState exampleClosure) exampleDocument)) 2
       = removeAll (js ''hovered'') (classList exampleDocument 2)"
    and others:
    "\<forall>el. el \<noteq> 2 \<longrightarrow>
       classList (performAll (removeHoverState exampleClosure)
         (performAll (addHoverState exampleClosure) exampleDocument)) el
       = classList exampleDocument el"
    using hover_state_add_then_remove [of "[]" exampleClosure exampleDocument 2] ol
    by blast+
  have three: "(3 :: nat) \<noteq> 2"
    by simp
  from removed have "classList (performAll (removeHoverState exampleClosure)
        (performAll (addHoverState exampleClosure) exampleDocument)) 2 = [js ''cursor-outline'']"
    using ne by (simp add: start)
  with ol added others three show ?thesis
    by blast
qed

section \<open>FAQ: the accordion\<close>

text \<open>
  C10. One click on an item negates its \<open>isOpen\<close>, two clicks in a row restore it, and a
  click on one item of the accordion leaves every other item as it was. As a step of the
  page, the click changes nothing but the accordion's items.
\<close>

theorem FAQItem_toggle_independent:
  "FAQItem_onClick isOpen = (\<not> isOpen)
   \<and> FAQItem_onClick (FAQItem_onClick isOpen) = isOpen
   \<and> (i < length items \<longrightarrow> FAQ_click i items ! i = (\<not> items ! i))
   \<and> FAQ_click i (FAQ_click i items) = items
   \<and> (\<forall>j. j \<noteq> i \<longrightarrow> j < length items \<longrightarrow> FAQ_click i items ! j = items ! j)
   \<and> length (FAQ_click i items) = length items
   \<and> newState (dispatch a (FAQItemClick i)) = a\<lparr>faq := FAQ_click i (faq a)\<rparr>"
  by (auto simp: FAQItem_onClick_def FAQ_click_def settle_def performAll_def)

theorem FAQItem_toggle_independent_witness:
  "(1 :: nat) < length FAQ_init
   \<and> FAQ_click 1 FAQ_init ! 1 = (\<not> FAQ_init ! 1)
   \<and> FAQ_click 1 FAQ_init = [False, True, False, False]
   \<and> FAQ_click 1 (FAQ_click 1 FAQ_init) = FAQ_init
   \<and> (2 :: nat) \<noteq> 1 \<and> (2 :: nat) < length FAQ_init
   \<and> FAQ_click 1 FAQ_init ! 2 = FAQ_init ! 2"
  using FAQItem_toggle_independent [of False 1 FAQ_init "exampleApp emptyDocument"]
  by (simp add: FAQ_init_def FAQItem_init_def FAQ_click_def FAQItem_onClick_def)

section \<open>App: the order of the sections\<close>

text \<open>
  C5. \<open>App\<close> renders the hero before the services list, the services list before the
  testimonials (\<open>Feedbacks\<close>), the testimonials before the FAQ accordion, and the accordion
  before the contact form.
\<close>

theorem sections_in_order:
  "rendersBefore App Hero Services \<and> rendersBefore App Services Feedbacks
   \<and> rendersBefore App Feedbacks FAQ \<and> rendersBefore App FAQ ContactForm"
  by (simp add: App_def rendersBefore_def)

section \<open>What the components keep as state\<close>

lemma formData_differ: "f k \<noteq> g k \<Longrightarrow> f \<noteq> (g :: formData)"
  by auto

text \<open>
  C4 as stated fails: the state of \<open>ContactForm\<close> is not a boolean but the object with the
  four text values, and it takes more than two values.
\<close>

theorem ContactForm_state_not_boolean:
  "\<not> isBoolean (hd (useStates ContactFormComponent))
   \<and> handleChange (js ''name'') (js ''a'') ContactForm_init \<noteq> ContactForm_init
   \<and> handleChange (js ''name'') (js ''b'') ContactForm_init \<noteq> ContactForm_init
   \<and> handleChange (js ''name'') (js ''a'') ContactForm_init
       \<noteq> handleChange (js ''name'') (js ''b'') ContactForm_init"
  by (intro conjI formData_differ [of _ "js ''name''"])
     (simp_all add: handleChange_def ContactForm_init_def js_def)

text \<open>
  C4 (as the code has it). \<open>RevealOnScroll\<close>, \<open>Navbar\<close> and \<open>FAQItem\<close> keep booleans only,
  each false at first, and every transition sets a flag or negates it: the observer's
  callback sets \<open>isVisible\<close>; \<open>handleScroll\<close> sets \<open>scrolled\<close> to \<open>scrollY > 20\<close>; the
  hamburger negates \<open>mobileMenuOpen\<close> and \<open>scrollToSection\<close> clears it when the element
  exists; a click negates \<open>isOpen\<close>. \<open>ContactForm\<close> keeps the object of four strings, and
  its one transition, \<open>handleChange\<close>, writes one property.
\<close>

theorem component_state_transitions:
  "useStates RevealOnScrollComponent = [BooleanValue False]
   \<and> useStates NavbarComponent = [BooleanValue False, BooleanValue False]
   \<and> useStates FAQItemComponent = [BooleanValue False]
   \<and> useStates ContactFormComponent = [ObjectValue ContactForm_init]
   \<and> isVisible (newState (revealStep r ev)) = (if intersects ev then True else isVisible r)
   \<and> scrolled (newState (handleScroll scrollY n)) = (scrollY > 20)
   \<and> mobileMenuOpen (newState (handleScroll scrollY n)) = mobileMenuOpen n
   \<and> mobileMenuOpen (newState (hamburger_onClick n)) = (\<not> mobileMenuOpen n)
   \<and> scrolled (newState (hamburger_onClick n)) = scrolled n
   \<and> mobileMenuOpen (newState (scrollToSection d ident n))
       = (if getElementById d ident = None then mobileMenuOpen n else False)
   \<and> scrolled (newState (scrollToSection d ident n)) = scrolled n
   \<and> newState (logo_onClick n) = n
   \<and> newState (Navbar_useEffect n) = n
   \<and> newState (Navbar_cleanup n) = n
   \<and> FAQItem_onClick isOpen = (\<not> isOpen)
   \<and> handleChange name value prev = prev(name \<mapsto> value)
   \<and> newState (handleSubmit prev) = prev"
  by (auto simp: revealStep_isVisible RevealOnScroll_init_def Navbar_init_def FAQItem_init_def
      handleScroll_def hamburger_onClick_def scrollToSection_def logo_onClick_def
      Navbar_useEffect_def Navbar_cleanup_def FAQItem_onClick_def handleChange_def
      handleSubmit_def returns_def throws_def split: option.splits sum.splits)

section \<open>What leaves the page\<close>

lemma dispatch_effects:
  assumes "e \<in> set (effects (dispatch a ev))"
  shows "\<not> networkRequest e \<and> \<not> storageWrite e
         \<and> (outbound e \<longrightarrow>
              (ev = FormSubmit
               \<and> (\<exists>m. e = WindowOpen (js ''https://wa.me/5519999592852?text='' @ m) (js ''_blank'')))
              \<or> (\<exists>i. i < length staticAnchors \<and> ev = AnchorClick i
                     \<and> e = FollowHyperlink (staticAnchors ! i) (js ''_blank'')))"
proof (cases ev)
  case (CursorMount t n)
  with assms show ?thesis
    by (auto simp: settle_def CustomCursor_useEffect_def returns_def Let_def split: if_splits)
next
  case CursorUnmount
  with assms show ?thesis
    by (auto simp: settle_def CustomCursor_cleanup_def returns_def split: option.splits)
next
  case (MouseMove x y)
  with assms show ?thesis
    by (auto simp: settle_def moveCursor_def split: option.splits)
next
  case (MouseEnter el)
  with assms show ?thesis
    by (auto simp: settle_def addHoverState_def split: option.splits if_splits)
next
  case (MouseLeave el)
  with assms show ?thesis
    by (auto simp: settle_def removeHoverState_def split: option.splits if_splits)
next
  case (NavItemClick i)
  with assms show ?thesis
    by (auto simp: settle_def withNav_def scrollToSection_def returns_def
        split: option.splits if_splits)
next
  case ConsultoriaClick
  with assms show ?thesis
    by (auto simp: settle_def withNav_def scrollToSection_def returns_def split: option.splits)
next
  case (Reveal i rev)
  with assms show ?thesis
    by (cases rev)
       (auto simp: settle_def RevealOnScroll_useEffect_def observerCallback_def
          RevealOnScroll_cleanup_def returns_def throws_def Let_def
          split: option.splits list.splits if_splits)
next
  case FormSubmit
  with assms show ?thesis
    by (auto simp: settle_def handleSubmit_def submitDefault_def returns_def throws_def Let_def
        whatsappPrefix_def phoneNumber_def js_def split: sum.splits)
next
  case (AnchorClick i)
  with assms show ?thesis
    by (auto simp: settle_def anchor_activate_def split: if_splits)
qed (use assms in \<open>auto simp: settle_def withNav_def Navbar_useEffect_def Navbar_cleanup_def
      handleScroll_def logo_onClick_def hamburger_onClick_def returns_def
      Hero_primary_onClick_def Hero_secondary_onClick_def Methodology_onClick_def
      scrollIntoViewIfPresent_def split: option.splits\<close>)

lemma fold_persist_none:
  "\<forall>e \<in> set es. \<not> storageWrite e \<Longrightarrow> fold persist es st = st"
proof (induction es arbitrary: st)
  case Nil
  then show ?case by simp
next
  case (Cons e es)
  then have "persist e st = st"
    by (cases e) simp_all
  with Cons show ?case by simp
qed

lemma submit_prevents_default: "PreventDefault \<in> set (effects (dispatch a FormSubmit))"
  by (simp add: settle_def handleSubmit_def returns_def throws_def split: sum.split)

text \<open>
  C7 (as the code has it). Whatever the state and the event, no step of a handler or of an
  effect hook is a network request or a write to a store that outlives the page; the form's
  own submission is prevented. A call that reaches beyond the page is either the
  \<open>window.open\<close> of \<open>handleSubmit\<close>, on a \<open>https://wa.me/5519999592852?text=\<close> link in a
  new tab, or the activation of one of the static anchors. The store beside the page is
  never changed, and a page loaded anew starts from the initial values of its components,
  whatever their state was before: the state does not survive the page. Loading the page
  does make the engine request its twelve remote images.
\<close>

theorem handlers_reach_outside_only_by_links:
  "(\<forall>e \<in> set (effects (dispatch a ev)).
      \<not> networkRequest e \<and> \<not> storageWrite e
      \<and> (outbound e \<longrightarrow>
           (ev = FormSubmit
            \<and> (\<exists>m. e = WindowOpen (js ''https://wa.me/5519999592852?text='' @ m) (js ''_blank'')))
           \<or> (\<exists>i. i < length staticAnchors \<and> ev = AnchorClick i
                  \<and> e = FollowHyperlink (staticAnchors ! i) (js ''_blank''))))
   \<and> PreventDefault \<in> set (effects (dispatch a FormSubmit))
   \<and> NativeFormSubmission \<notin> set (effects (dispatch a FormSubmit))
   \<and> stored (newState (browserStep b bev)) = stored b
   \<and> current (newState (browserStep b (PageLoad d))) = App_init d
   \<and> effects (browserStep b (PageLoad d)) = map ResourceFetch imageSources"
proof -
  have handlers: "\<forall>e \<in> set (effects (dispatch a ev)).
      \<not> networkRequest e \<and> \<not> storageWrite e
      \<and> (outbound e \<longrightarrow>
           (ev = FormSubmit
            \<and> (\<exists>m. e = WindowOpen (js ''https://wa.me/5519999592852?text='' @ m) (js ''_blank'')))
           \<or> (\<exists>i. i < length staticAnchors \<and> ev = AnchorClick i
                  \<and> e = FollowHyperlink (staticAnchors ! i) (js ''_blank'')))"
    using dispatch_effects by blast
  have native: "NativeFormSubmission \<notin> set (effects (dispatch a FormSubmit))"
    using dispatch_effects [of NativeFormSubmission a FormSubmit] by auto
  have store: "stored (newState (browserStep b bev)) = stored b"
  proof (cases bev)
    case (PageEvent ev')
    have "\<forall>e \<in> set (effects (dispatch (current b) ev')). \<not> storageWrite e"
      using dispatch_effects by blast
    then show ?thesis
      by (simp add: PageEvent Let_def fold_persist_none)
  next
    case (PageLoad d')
    then show ?thesis by (simp add: returns_def)
  qed
  have load: "current (newState (browserStep b (PageLoad d))) = App_init d"
    "effects (browserStep b (PageLoad d)) = map ResourceFetch imageSources"
    by (simp_all add: returns_def)
  from handlers submit_prevents_default native store load show ?thesis
    by blast
qed

lemma exampleApp_submit:
  "effects (dispatch (exampleApp exampleDocument) FormSubmit)
     = [PreventDefault,
        WindowOpen (js ''https://wa.me/5519999592852?text=*Nova%20Aplica%C3%A7%C3%A3o%20via%20Site%20Capturehouse*%0A%0A*Nome%3A*%20Ana%0A*Instagram%3A*%20%40ana%0A*Atua%C3%A7%C3%A3o%3A*%20Luxo%0A*Objetivo%3A*%20VGV'')
          (js ''_blank'')]"
proof -
  have "message exampleForm = messageTemplate (js ''Ana'') (js ''@ana'') (js ''Luxo'') (js ''VGV'')"
    by (simp add: message_def interpolate_def exampleForm_fields)
  then have "handleSubmit exampleForm
      = returns exampleForm
          [PreventDefault,
           WindowOpen (whatsappPrefix @ js ''*Nova%20Aplica%C3%A7%C3%A3o%20via%20Site%20Capturehouse*%0A%0A*Nome%3A*%20Ana%0A*Instagram%3A*%20%40ana%0A*Atua%C3%A7%C3%A3o%3A*%20Luxo%0A*Objetivo%3A*%20VGV'')
             (js ''_blank'')]"
    by (simp add: handleSubmit_def encodeURIComponent_example)
  then show ?thesis
    by (simp add: exampleApp_def settle_def submitDefault_def returns_def whatsappPrefix_def
        phoneNumber_def js_def)
qed

theorem handlers_reach_outside_only_by_links_witness:
  "WindowOpen (js ''https://wa.me/5519999592852?text=*Nova%20Aplica%C3%A7%C3%A3o%20via%20Site%20Capturehouse*%0A%0A*Nome%3A*%20Ana%0A*Instagram%3A*%20%40ana%0A*Atua%C3%A7%C3%A3o%3A*%20Luxo%0A*Objetivo%3A*%20VGV'')
       (js ''_blank'')
     \<in> set (effects (dispatch (exampleApp exampleDocument) FormSubmit))
   \<and> outbound (WindowOpen (js ''https://wa.me/5519999592852?text=*Nova%20Aplica%C3%A7%C3%A3o%20via%20Site%20Capturehouse*%0A%0A*Nome%3A*%20Ana%0A*Instagram%3A*%20%40ana%0A*Atua%C3%A7%C3%A3o%3A*%20Luxo%0A*Objetivo%3A*%20VGV'')
       (js ''_blank''))
   \<and> (\<exists>m. WindowOpen (js ''https://wa.me/5519999592852?text=*Nova%20Aplica%C3%A7%C3%A3o%20via%20Site%20Capturehouse*%0A%0A*Nome%3A*%20Ana%0A*Instagram%3A*%20%40ana%0A*Atua%C3%A7%C3%A3o%3A*%20Luxo%0A*Objetivo%3A*%20VGV'')
            (js ''_blank'')
          = WindowOpen (js ''https://wa.me/5519999592852?text='' @ m) (js ''_blank''))
   \<and> PreventDefault \<in> set (effects (dispatch (exampleApp exampleDocument) FormSubmit))
   \<and> stored (newState (browserStep exampleBrowser (PageEvent FormSubmit))) = stored exampleBrowser
   \<and> current (newState (browserStep exampleBrowser (PageLoad exampleDocument)))
       = App_init exampleDocument"
proof -
  let ?e = "WindowOpen (js ''https://wa.me/5519999592852?text=*Nova%20Aplica%C3%A7%C3%A3o%20via%20Site%20Capturehouse*%0A%0A*Nome%3A*%20Ana%0A*Instagram%3A*%20%40ana%0A*Atua%C3%A7%C3%A3o%3A*%20Luxo%0A*Objetivo%3A*%20VGV'')
       (js ''_blank'')"
  have mem: "?e \<in> set (effects (dispatch (exampleApp exampleDocument) FormSubmit))"
    unfolding exampleApp_submit by simp
  have out: "outbound ?e"
    by simp
  note t = handlers_reach_outside_only_by_links [of "exampleApp exampleDocument" FormSubmit
      exampleBrowser "PageEvent FormSubmit" exampleDocument]
  from t mem out have "\<exists>m. ?e = WindowOpen (js ''https://wa.me/5519999592852?text='' @ m) (js ''_blank'')"
    by blast
  moreover from t have "PreventDefault \<in> set (effects (dispatch (exampleApp exampleDocument) FormSubmit))"
    "stored (newState (browserStep exampleBrowser (PageEvent FormSubmit))) = stored exampleBrowser"
    "current (newState (browserStep exampleBrowser (PageLoad exampleDocument)))
       = App_init exampleDocument"
    by blast+
  ultimately show ?thesis
    using mem out by blast
qed

text \<open>
  C7 as stated fails: rendering the page is an operation of the program that ends in
  network requests, one for each remote image.
\<close>

theorem page_load_requests_images:
  "effects (browserStep exampleBrowser (PageLoad exampleDocument)) ! 0
     = ResourceFetch
         (js ''https://images.unsplash.com/photo-1613490493576-7fde63acd811?auto=format&fit=crop&q=80'')
   \<and> networkRequest (effects (browserStep exampleBrowser (PageLoad exampleDocument)) ! 0)
   \<and> length (filter networkRequest (effects (browserStep exampleBrowser (PageLoad exampleDocument))))
       = 12"
  by (simp add: returns_def imageSources_def)

end
